theory Spec2Isabelle
  imports Complex_Main
begin

section \<open>Data model of \<open>main.py\<close> (class \<open>AdvancedTempoProcessor\<close>)\<close>

text \<open>
  Python floats are modelled as exact reals: a decimal literal of the source (\<open>1.25\<close>,
  \<open>19.43\<close>) is the real number it denotes. The program uses fixed string literals as tags
  (area types, labels, group names, guidance texts, several with non-ASCII letters); each
  distinct literal is one constructor of a datatype, named after the literal.
\<close>

datatype area_type =
    urban_center | urban_center_high | urban_center_extreme
  | industrial | industrial_heavy | residential

datatype quality = Buena | Moderada | Mala | Muy_Mala | Peligrosa

datatype risk_level = Bajo | Moderado | Alto | Muy_Alto

datatype priority = Alta | Media

datatype group =
    children | elderly | asthmatics | schools | hospitals
  | outdoor_workers | low_income | elderly_communities

datatype condition = Caluroso | Templado | Frio

text \<open>The texts appended by \<open>_get_risk_factors\<close>, in the order of the source.\<close>

datatype risk_factor =
    Alta_concentracion_de_NO2
  | Niveles_peligrosos_de_contaminacion
  | Alta_densidad_de_trafico_vehicular
  | Proximidad_a_zonas_industriales
  | Zona_critica_de_contaminacion
  | Condiciones_normales

text \<open>
  The guidance texts of \<open>_generate_recommendations\<close> (lines 114-161) and of the literal
  recommendation block of \<open>_get_fallback_dashboard\<close> (lines 475-481). The text
  "Monitorear sintomas respiratorios" occurs in the general and in the elderly list: it
  is the same string, hence the same constructor.
\<close>

datatype message =
    Evitar_actividades_al_aire_libre_prolongadas
  | Usar_mascarilla_en_exteriores
  | Mantener_ventanas_cerradas
  | Activar_protocolos_de_calidad_del_aire
  | Limitar_actividades_fisicas_intensas_al_aire_libre
  | Monitorear_sintomas_respiratorios
  | Calidad_del_aire_aceptable_tomar_precauciones_normales
  | Suspender_educacion_fisica_al_aire_libre
  | Mantener_estudiantes_en_interiores_durante_recreo
  | Activar_sistema_de_purificacion_de_aire_en_aulas
  | Reducir_tiempo_de_actividades_al_aire_libre
  | Monitorear_estudiantes_con_asma_o_condiciones_respiratorias
  | Evitar_salidas_no_esenciales
  | Realizar_ejercicios_en_interiores
  | Limitar_tiempo_al_aire_libre
  | Tener_medicamentos_respiratorios_a_mano
  | Prepararse_para_posible_aumento_de_casos_respiratorios
  | Revisar_inventario_de_medicamentos_para_asma
  | Alertar_personal_sobre_condiciones_ambientales
  | Monitorear_calidad_del_aire
  | Evitar_zonas_de_alto_trafico
  | Limitar_recreo_al_aire_libre_si_la_calidad_empeora
  | Tomar_precauciones_normales
  | Estar_preparado_para_consultas_respiratorias

datatype data_source = NASA_TEMPO_Simulation_OpenAQ_Open_Meteo | Fallback_data

datatype exn = PyException

text \<open>
  The dictionary returned by \<open>_get_weather_data\<close>: either empty or holding the three
  keys; a missing key is \<open>None\<close>.
\<close>

record weather_data =
  wd_temperature :: "real option"
  wd_wind_speed :: "real option"
  wd_humidity :: "real option"

record air_quality =
  no2_tropospheric :: real
  pm25 :: real
  quality_index :: quality
  aqi_value :: int
  timestamp :: int

record weather =
  temperature :: "real option"
  wind_speed :: "real option"
  humidity :: "real option"
  condition :: condition

record vulnerability_analysis =
  area_type :: area_type
  vulnerable_groups :: "group list"
  risk_level :: risk_level
  risk_factors :: "risk_factor list"
  protection_priority :: priority

record recommendations =
  general :: "message list"
  for_schools :: "message list"
  for_elderly :: "message list"
  for_health_centers :: "message list"
  immediate_actions :: "message list"

record trend_point =
  tp_date :: int
  tp_no2 :: real
  tp_quality :: quality

record forecast_point =
  fp_hour :: int
  fp_no2 :: real
  fp_quality :: quality

record risk_zone =
  rz_coords :: "real \<times> real"
  rz_risk :: string
  rz_radius :: int

record risk_map =
  rm_center :: "real \<times> real"
  rm_risk_zones :: "risk_zone list"

record visualization_data =
  historical_trend :: "trend_point list"
  forecast :: "forecast_point list"
  risk_map :: risk_map

record metadata =
  data_source :: data_source
  location :: "real \<times> real"
  last_updated :: int
  resolution :: string

record dashboard =
  d_air_quality :: air_quality
  d_weather :: weather
  d_vulnerability_analysis :: vulnerability_analysis
  d_recommendations :: recommendations
  d_visualization_data :: visualization_data
  d_metadata :: metadata

section \<open>Builtins of Python used by the program\<close>

text \<open>\<open>int(x)\<close> on a float truncates towards zero.\<close>

definition py_int :: "real \<Rightarrow> int" where
  "py_int x = (if 0 \<le> x then \<lfloor>x\<rfloor> else \<lceil>x\<rceil>)"

text \<open>\<open>round(x)\<close> rounds to the nearest integer, a tie to the even one.\<close>

definition py_round :: "real \<Rightarrow> int" where
  "py_round x =
     (let f = \<lfloor>x\<rfloor>; d = x - of_int f
      in if d < 1 / 2 then f
         else if 1 / 2 < d then f + 1
         else if even f then f else f + 1)"

text \<open>\<open>round(x, 2)\<close>: two decimal places.\<close>

definition py_round2 :: "real \<Rightarrow> real" where
  "py_round2 x = of_int (py_round (x * 100)) / 100"

text \<open>
  Time is a count of microseconds, the resolution of \<open>datetime\<close>. A \<open>timedelta\<close> is
  normalised to days, seconds (0 up to 86399) and microseconds; its attribute
  \<open>.seconds\<close> is the middle component.
\<close>

definition timedelta_seconds :: "int \<Rightarrow> int" where
  "timedelta_seconds d = (d mod 86400000000) div 1000000"

definition datetime_hour :: "int \<Rightarrow> int" where
  "datetime_hour t = (t div 3600000000) mod 24"

definition datetime_date :: "int \<Rightarrow> int" where
  "datetime_date t = t div 86400000000"

text \<open>
  The random source: the stream of standard normal draws still to come.
  \<open>np.random.normal(loc, scale)\<close> takes the next draw \<open>z\<close> and returns
  \<open>loc + scale * z\<close>.
\<close>

type_synonym rng = "nat \<Rightarrow> real"

definition normal :: "real \<Rightarrow> real \<Rightarrow> rng \<Rightarrow> real \<times> rng" where
  "normal loc scale g = (loc + scale * g 0, \<lambda>n. g (Suc n))"

section \<open>The pure functions of the processor\<close>

definition is_major_urban :: "real \<Rightarrow> real \<Rightarrow> bool" where
  "is_major_urban lat lon \<longleftrightarrow> 10 < \<bar>lat\<bar> \<and> \<bar>lat\<bar> < 60"

definition classify_area :: "real \<Rightarrow> real \<Rightarrow> area_type" where
  "classify_area lat lon =
     (if \<bar>lat - 19.43\<bar> < 0.5 \<and> \<bar>lon + 99.13\<bar> < 0.5 then urban_center_high
      else if \<bar>lat - 40.7\<bar> < 0.5 \<and> \<bar>lon + 74.0\<bar> < 0.5 then urban_center
      else if \<bar>lat - 34.0\<bar> < 0.5 \<and> \<bar>lon + 118.2\<bar> < 0.5 then urban_center_high
      else if \<bar>lat - 25.7\<bar> < 1.0 \<and> \<bar>lon + 100.3\<bar> < 1.0 then industrial_heavy
      else if \<bar>lat - 32.5\<bar> < 1.0 \<and> \<bar>lon + 117.0\<bar> < 1.0 then industrial
      else if \<bar>lat - 28.6\<bar> < 1.0 \<and> \<bar>lon - 77.2\<bar> < 1.0 then urban_center_extreme
      else if \<bar>lat - 39.9\<bar> < 1.0 \<and> \<bar>lon - 116.4\<bar> < 1.0 then urban_center_extreme
      else if is_major_urban lat lon then urban_center
      else residential)"

definition identify_vulnerable_groups :: "area_type \<Rightarrow> group list" where
  "identify_vulnerable_groups a =
     (let groups = [children, elderly, asthmatics]
      in if a \<in> set [urban_center_high, urban_center_extreme]
           then groups @ [schools, hospitals, outdoor_workers, low_income]
         else if a = urban_center
           then groups @ [schools, hospitals, outdoor_workers]
         else if a \<in> set [industrial, industrial_heavy]
           then groups @ [schools, low_income, outdoor_workers]
         else if a = residential
           then groups @ [schools, elderly_communities]
         else groups)"

text \<open>Lines 203-209 of \<open>_calculate_risk_level\<close>: the local \<open>base_risk\<close>.\<close>

definition base_risk :: "real \<Rightarrow> risk_level" where
  "base_risk no2_level =
     (if 150 < no2_level then Muy_Alto
      else if 100 < no2_level then Alto
      else if 50 < no2_level then Moderado
      else Bajo)"

definition calculate_risk_level :: "real \<Rightarrow> area_type \<Rightarrow> risk_level" where
  "calculate_risk_level no2_level a =
     (let b = base_risk no2_level
      in if a \<in> set [urban_center_extreme, industrial_heavy] then
           (if b = Bajo then Moderado
            else if b = Moderado then Alto
            else if b = Alto then Muy_Alto
            else b)
         else if a \<in> set [urban_center_high, industrial] then
           (if b = Bajo then Moderado
            else if b = Moderado then Alto
            else b)
         else b)"

definition get_risk_factors :: "area_type \<Rightarrow> real \<Rightarrow> risk_factor list" where
  "get_risk_factors a no2_level =
     (let f1 = (if 80 < no2_level then [Alta_concentracion_de_NO2] else []);
          f2 = f1 @ (if 120 < no2_level then [Niveles_peligrosos_de_contaminacion] else []);
          f3 = f2 @ (if a \<in> set [urban_center_high, urban_center_extreme]
                      then [Alta_densidad_de_trafico_vehicular] else []);
          f4 = f3 @ (if a \<in> set [industrial, industrial_heavy]
                      then [Proximidad_a_zonas_industriales] else []);
          f5 = f4 @ (if a = urban_center_extreme then [Zona_critica_de_contaminacion] else [])
      in if f5 = [] then [Condiciones_normales] else f5)"

definition analyze_vulnerability :: "real \<Rightarrow> real \<Rightarrow> real \<Rightarrow> vulnerability_analysis" where
  "analyze_vulnerability lat lon no2_level =
     (let a = classify_area lat lon;
          gs = identify_vulnerable_groups a;
          r = calculate_risk_level no2_level a
      in \<lparr> area_type = a,
           vulnerable_groups = gs,
           risk_level = r,
           risk_factors = get_risk_factors a no2_level,
           protection_priority = (if r \<in> set [Alto, Muy_Alto] then Alta else Media) \<rparr>)"

definition generate_recommendations ::
  "real \<Rightarrow> risk_level \<Rightarrow> group list \<Rightarrow> recommendations" where
  "generate_recommendations no2_level r gs =
     \<lparr> general =
         (if 80 < no2_level then
            [Evitar_actividades_al_aire_libre_prolongadas,
             Usar_mascarilla_en_exteriores,
             Mantener_ventanas_cerradas]
          else if 50 < no2_level then
            [Limitar_actividades_fisicas_intensas_al_aire_libre,
             Monitorear_sintomas_respiratorios]
          else [Calidad_del_aire_aceptable_tomar_precauciones_normales]),
       for_schools =
         (if schools \<in> set gs then
            (if 70 < no2_level then
               [Suspender_educacion_fisica_al_aire_libre,
                Mantener_estudiantes_en_interiores_durante_recreo,
                Activar_sistema_de_purificacion_de_aire_en_aulas]
             else if 50 < no2_level then
               [Reducir_tiempo_de_actividades_al_aire_libre,
                Monitorear_estudiantes_con_asma_o_condiciones_respiratorias]
             else [])
          else []),
       for_elderly =
         (if elderly \<in> set gs then
            (if 60 < no2_level then
               [Evitar_salidas_no_esenciales,
                Realizar_ejercicios_en_interiores,
                Monitorear_sintomas_respiratorios]
             else if 50 < no2_level then
               [Limitar_tiempo_al_aire_libre,
                Tener_medicamentos_respiratorios_a_mano]
             else [])
          else []),
       for_health_centers =
         (if hospitals \<in> set gs \<and> 60 < no2_level then
            [Prepararse_para_posible_aumento_de_casos_respiratorios,
             Revisar_inventario_de_medicamentos_para_asma,
             Alertar_personal_sobre_condiciones_ambientales]
          else []),
       immediate_actions =
         (if 80 < no2_level then [Activar_protocolos_de_calidad_del_aire] else []) \<rparr>"

definition calculate_quality :: "real \<Rightarrow> quality" where
  "calculate_quality no2_value =
     (if no2_value < 40 then Buena
      else if no2_value < 80 then Moderada
      else if no2_value < 120 then Mala
      else if no2_value < 160 then Muy_Mala
      else Peligrosa)"

definition calculate_aqi :: "real \<Rightarrow> int" where
  "calculate_aqi no2_value =
     (if no2_value < 40 then py_int (no2_value * 1.25)
      else if no2_value < 80 then py_int (50 + (no2_value - 40) * 1.25)
      else if no2_value < 120 then py_int (100 + (no2_value - 80) * 1.5)
      else if no2_value < 160 then py_int (150 + (no2_value - 120) * 2)
      else min 300 (py_int (200 + (no2_value - 160) * 2.5)))"

definition get_weather_condition :: "weather_data \<Rightarrow> condition" where
  "get_weather_condition wd =
     (let temp = (case wd_temperature wd of Some t \<Rightarrow> t | None \<Rightarrow> 20)
      in if 30 < temp then Caluroso else if 20 < temp then Templado else Frio)"

definition generate_risk_map_data :: "real \<Rightarrow> real \<Rightarrow> risk_map" where
  "generate_risk_map_data lat lon =
     \<lparr> rm_center = (lat, lon),
       rm_risk_zones = [\<lparr> rz_coords = (lat + 0.01, lon + 0.01), rz_risk = ''high'',
                          rz_radius = 1000 \<rparr>] \<rparr>"

section \<open>The functions that draw random numbers or read the clock\<close>

text \<open>
  Each of them takes the random source and returns it advanced by the draws it made, in
  the order of the source. The clock reading \<open>now\<close> is the value of
  \<open>datetime.utcnow()\<close>; one request is served at one instant.
\<close>

definition get_base_no2_for_area :: "real \<Rightarrow> real \<Rightarrow> area_type \<Rightarrow> rng \<Rightarrow> real \<times> rng" where
  "get_base_no2_for_area lat lon a g =
     (if a = urban_center_extreme then (let (z, g') = normal 0 20 g in (120 + z, g'))
      else if a = urban_center_high then (let (z, g') = normal 0 15 g in (80 + z, g'))
      else if a = industrial_heavy then (let (z, g') = normal 0 15 g in (90 + z, g'))
      else if a = urban_center then (let (z, g') = normal 0 12 g in (60 + z, g'))
      else if a = industrial then (let (z, g') = normal 0 12 g in (70 + z, g'))
      else (let (z, g') = normal 0 8 g in (30 + z, g')))"

text \<open>Lines 334-342 of \<open>_simulate_tempo_advanced\<close>: the dictionary \<open>urban_factor_map\<close>.\<close>

definition urban_factor_map :: "area_type \<Rightarrow> real" where
  "urban_factor_map a =
     (case a of
        urban_center_extreme \<Rightarrow> 4.5
      | urban_center_high \<Rightarrow> 3.2
      | urban_center \<Rightarrow> 2.0
      | industrial_heavy \<Rightarrow> 3.5
      | industrial \<Rightarrow> 2.5
      | residential \<Rightarrow> 1.0)"

text \<open>Lines 344-352: the local \<open>traffic_pattern\<close> of the simulator.\<close>

definition traffic_pattern :: "int \<Rightarrow> real" where
  "traffic_pattern hour =
     (if (7 \<le> hour \<and> hour \<le> 9) \<or> (17 \<le> hour \<and> hour \<le> 20) then 1.8
      else if 12 \<le> hour \<and> hour \<le> 14 then 1.3
      else if 23 \<le> hour \<or> hour \<le> 5 then 0.6
      else 1.0)"

text \<open>Lines 354-362: the local \<open>wind_factor\<close>.\<close>

definition wind_factor :: "weather_data \<Rightarrow> real" where
  "wind_factor wd =
     (let w = (case wd_wind_speed wd of Some v \<Rightarrow> v | None \<Rightarrow> 5)
      in if 15 < w then 0.5 else if 10 < w then 0.7 else if 5 < w then 0.85 else 1.0)"

text \<open>Lines 364-370: the local \<open>temp_factor\<close>.\<close>

definition temp_factor :: "weather_data \<Rightarrow> real" where
  "temp_factor wd =
     (let temp = (case wd_temperature wd of Some t \<Rightarrow> t | None \<Rightarrow> 20)
      in if temp < 10 then 1.3 else if 30 < temp then 1.2 else 1.0)"

definition simulate_tempo_advanced ::
  "real \<Rightarrow> real \<Rightarrow> weather_data \<Rightarrow> int \<Rightarrow> rng \<Rightarrow> real \<times> rng" where
  "simulate_tempo_advanced lat lon wd now g =
     (let a = classify_area lat lon;
          urban_factor = urban_factor_map a;
          hour = datetime_hour now;
          (base_no2, g1) = get_base_no2_for_area lat lon a g;
          final_no2 = base_no2 * urban_factor * traffic_pattern hour
                        * wind_factor wd * temp_factor wd;
          (z, g2) = normal 0 3 g1;
          final_no2 = final_no2 + z
      in (max 5.0 final_no2, g2))"

text \<open>
  The loop of \<open>_generate_historical_trend\<close> (lines 231-241) over the indices still to
  run; each step draws the area baseline and then the daily noise.
\<close>

fun historical_trend_loop ::
  "real \<Rightarrow> real \<Rightarrow> area_type \<Rightarrow> int \<Rightarrow> nat \<Rightarrow> nat list \<Rightarrow> rng \<Rightarrow> trend_point list \<times> rng" where
  "historical_trend_loop lat lon a now days [] g = ([], g)"
| "historical_trend_loop lat lon a now days (i # rest) g =
     (let date = now - (int days - int i - 1) * 86400000000;
          (base_no2, g1) = get_base_no2_for_area lat lon a g;
          (z, g2) = normal 0 8 g1;
          daily_variation = sin (real i * 0.8) * 15 + z;
          no2_value = max 10 (base_no2 + daily_variation);
          p = \<lparr> tp_date = datetime_date date,
                tp_no2 = py_round2 no2_value,
                tp_quality = calculate_quality no2_value \<rparr>;
          (ps, g3) = historical_trend_loop lat lon a now days rest g2
      in (p # ps, g3))"

definition generate_historical_trend ::
  "real \<Rightarrow> real \<Rightarrow> int \<Rightarrow> rng \<Rightarrow> trend_point list \<times> rng" where
  "generate_historical_trend lat lon now g =
     (let days = 7; a = classify_area lat lon
      in historical_trend_loop lat lon a now days [0..<days] g)"

text \<open>Lines 253-261 of \<open>_generate_forecast\<close>: the local \<open>traffic_peak\<close>.\<close>

definition traffic_peak :: "int \<Rightarrow> real" where
  "traffic_peak future_hour =
     (if 7 \<le> future_hour \<and> future_hour \<le> 9 then 1.8
      else if 17 \<le> future_hour \<and> future_hour \<le> 20 then 1.9
      else if 12 \<le> future_hour \<and> future_hour \<le> 14 then 1.3
      else if 23 \<le> future_hour \<or> future_hour \<le> 5 then 0.6
      else 1.0)"

text \<open>Line 263: the concentration of one forecast hour, before it is floored at 10.\<close>

definition hourly_no2 :: "real \<Rightarrow> int \<Rightarrow> real \<Rightarrow> real" where
  "hourly_no2 base_no2 future_hour noise = base_no2 * traffic_peak future_hour + noise"

text \<open>The loop of \<open>_generate_forecast\<close> (lines 251-269) over the indices still to run.\<close>

fun forecast_loop :: "int \<Rightarrow> real \<Rightarrow> nat list \<Rightarrow> rng \<Rightarrow> forecast_point list \<times> rng" where
  "forecast_loop current_hour base_no2 [] g = ([], g)"
| "forecast_loop current_hour base_no2 (hour # rest) g =
     (let future_hour = (current_hour + int hour) mod 24;
          (z, g1) = normal 0 5 g;
          h = hourly_no2 base_no2 future_hour z;
          p = \<lparr> fp_hour = future_hour,
                fp_no2 = py_round2 (max 10 h),
                fp_quality = calculate_quality h \<rparr>;
          (ps, g2) = forecast_loop current_hour base_no2 rest g1
      in (p # ps, g2))"

definition generate_forecast :: "real \<Rightarrow> real \<Rightarrow> int \<Rightarrow> rng \<Rightarrow> forecast_point list \<times> rng" where
  "generate_forecast lat lon now g =
     (let current_hour = datetime_hour now;
          a = classify_area lat lon;
          (base_no2, g1) = get_base_no2_for_area lat lon a g
      in forecast_loop current_hour base_no2 [0..<24] g1)"

text \<open>The literal recommendation block of \<open>_get_fallback_dashboard\<close> (lines 475-481).\<close>

definition fallback_recommendations :: recommendations where
  "fallback_recommendations =
     \<lparr> general = [Monitorear_calidad_del_aire, Evitar_zonas_de_alto_trafico],
       for_schools = [Limitar_recreo_al_aire_libre_si_la_calidad_empeora],
       for_elderly = [Tomar_precauciones_normales],
       for_health_centers = [Estar_preparado_para_consultas_respiratorias],
       immediate_actions = [] \<rparr>"

definition get_fallback_dashboard :: "real \<Rightarrow> real \<Rightarrow> int \<Rightarrow> rng \<Rightarrow> dashboard \<times> rng" where
  "get_fallback_dashboard lat lon now g =
     (let a = classify_area lat lon;
          (fallback_no2, g1) = get_base_no2_for_area lat lon a g;
          (trend, g2) = generate_historical_trend lat lon now g1;
          (fc, g3) = generate_forecast lat lon now g2
      in (\<lparr> d_air_quality =
              \<lparr> no2_tropospheric = py_round2 fallback_no2,
                pm25 = 15.5,
                quality_index = calculate_quality fallback_no2,
                aqi_value = calculate_aqi fallback_no2,
                timestamp = now \<rparr>,
            d_weather =
              \<lparr> temperature = Some 22.0,
                wind_speed = Some 5.0,
                humidity = Some 60.0,
                condition = Templado \<rparr>,
            d_vulnerability_analysis =
              \<lparr> area_type = a,
                vulnerable_groups = identify_vulnerable_groups a,
                risk_level = calculate_risk_level fallback_no2 a,
                risk_factors = get_risk_factors a fallback_no2,
                protection_priority = (if 80 < fallback_no2 then Alta else Media) \<rparr>,
            d_recommendations = fallback_recommendations,
            d_visualization_data =
              \<lparr> historical_trend = trend,
                forecast = fc,
                risk_map = generate_risk_map_data lat lon \<rparr>,
            d_metadata =
              \<lparr> data_source = Fallback_data,
                location = (lat, lon),
                last_updated = now,
                resolution = ''2km x 5.5km'' \<rparr> \<rparr>, g3))"

section \<open>The cache and the orchestrator\<close>

text \<open>
  What one call of \<open>get_air_quality_dashboard\<close> reads from outside: the clock, the
  dictionaries returned by the two fetchers (\<open>_get_openaq_data\<close> gives the key
  \<open>pm25\<close> or nothing), the random source, and whether a statement of the
  \<open>try\<close> block (lines 34-86) raises an \<open>Exception\<close>. The store into the cache is the
  last statement of that block, so a raise comes before the store is done.
\<close>

record env =
  utcnow :: int
  openaq_pm25 :: "real option"
  weather_reply :: weather_data
  try_raises :: "exn option"
  rng :: rng

text \<open>
  The processor's state is its cache, from the key to the stored pair of result and
  timestamp. The key \<open>f"{round(lat, 2)}_{round(lon, 2)}"\<close> is modelled as the pair of
  the two rounded numbers.
\<close>

record processor =
  cache :: "real \<times> real \<rightharpoonup> dashboard \<times> int"

definition init :: processor where
  "init = \<lparr> cache = Map.empty \<rparr>"

definition cache_ttl :: int where
  "cache_ttl = 300"

definition cache_key :: "real \<Rightarrow> real \<Rightarrow> real \<times> real" where
  "cache_key lat lon = (py_round2 lat, py_round2 lon)"

text \<open>Lines 29-32: the result served from the cache, if any.\<close>

definition cache_lookup :: "processor \<Rightarrow> real \<times> real \<Rightarrow> int \<Rightarrow> dashboard option" where
  "cache_lookup st k now =
     (case cache st k of
        None \<Rightarrow> None
      | Some (cached_data, ts) \<Rightarrow>
          if timedelta_seconds (now - ts) < cache_ttl then Some cached_data else None)"

text \<open>Lines 35-82: the body of the \<open>try\<close> block up to the assembled result.\<close>

definition live_dashboard :: "real \<Rightarrow> real \<Rightarrow> env \<Rightarrow> exn + dashboard" where
  "live_dashboard lat lon e =
     (case try_raises e of
        Some x \<Rightarrow> Inl x
      | None \<Rightarrow>
         (let now = utcnow e;
              wd = weather_reply e;
              (no2, g1) = simulate_tempo_advanced lat lon wd now (rng e);
              va = analyze_vulnerability lat lon no2;
              recs = generate_recommendations no2 (risk_level va) (vulnerable_groups va);
              (trend, g2) = generate_historical_trend lat lon now g1;
              (fc, g3) = generate_forecast lat lon now g2
          in Inr
            \<lparr> d_air_quality =
                \<lparr> no2_tropospheric = py_round2 no2,
                  pm25 = (case openaq_pm25 e of Some v \<Rightarrow> v | None \<Rightarrow> 15.5),
                  quality_index = calculate_quality no2,
                  aqi_value = calculate_aqi no2,
                  timestamp = now \<rparr>,
              d_weather =
                \<lparr> temperature = wd_temperature wd,
                  wind_speed = wd_wind_speed wd,
                  humidity = wd_humidity wd,
                  condition = get_weather_condition wd \<rparr>,
              d_vulnerability_analysis = va,
              d_recommendations = recs,
              d_visualization_data =
                \<lparr> historical_trend = trend,
                  forecast = fc,
                  risk_map = generate_risk_map_data lat lon \<rparr>,
              d_metadata =
                \<lparr> data_source = NASA_TEMPO_Simulation_OpenAQ_Open_Meteo,
                  location = (lat, lon),
                  last_updated = now,
                  resolution = ''2km x 5.5km'' \<rparr> \<rparr>))"

definition get_air_quality_dashboard ::
  "processor \<Rightarrow> real \<Rightarrow> real \<Rightarrow> env \<Rightarrow> dashboard \<times> processor" where
  "get_air_quality_dashboard st lat lon e =
     (let k = cache_key lat lon
      in case cache_lookup st k (utcnow e) of
           Some cached_data \<Rightarrow> (cached_data, st)
         | None \<Rightarrow>
            (case live_dashboard lat lon e of
               Inr result \<Rightarrow> (result, st\<lparr> cache := (cache st)(k \<mapsto> (result, utcnow e)) \<rparr>)
             | Inl x \<Rightarrow> (fst (get_fallback_dashboard lat lon (utcnow e) (rng e)), st)))"

section \<open>Notions used by the properties\<close>

text \<open>Severity of the quality labels: Buena < Moderada < Mala < Muy Mala < Peligrosa.\<close>

definition quality_rank :: "quality \<Rightarrow> nat" where
  "quality_rank q =
     (case q of Buena \<Rightarrow> 0 | Moderada \<Rightarrow> 1 | Mala \<Rightarrow> 2 | Muy_Mala \<Rightarrow> 3 | Peligrosa \<Rightarrow> 4)"

text \<open>No result stored in the cache carries the source label of the fallback.\<close>

definition no_fallback_cached :: "processor \<Rightarrow> bool" where
  "no_fallback_cached st \<longleftrightarrow>
     (\<forall>k d ts. cache st k = Some (d, ts) \<longrightarrow> data_source (d_metadata d) \<noteq> Fallback_data)"

text \<open>
  A concrete call environment for running the model: the clock reads 0, both fetchers
  return an empty dictionary, nothing raises and every random draw is 0.
\<close>

definition quiet_env :: env where
  "quiet_env =
     \<lparr> utcnow = 0, openaq_pm25 = None,
       weather_reply = \<lparr> wd_temperature = None, wd_wind_speed = None, wd_humidity = None \<rparr>,
       try_raises = None, rng = (\<lambda>n. 0) \<rparr>"

section \<open>The air quality index\<close>

lemma py_int_nonneg: "0 \<le> x \<Longrightarrow> py_int x = \<lfloor>x\<rfloor>"
  by (simp add: py_int_def)

lemma calculate_aqi_floor:
  assumes "0 \<le> x"
  shows "calculate_aqi x =
     (if x < 40 then \<lfloor>x * 1.25\<rfloor>
      else if x < 80 then \<lfloor>50 + (x - 40) * 1.25\<rfloor>
      else if x < 120 then \<lfloor>100 + (x - 80) * 1.5\<rfloor>
      else if x < 160 then \<lfloor>150 + (x - 120) * 2\<rfloor>
      else min 300 \<lfloor>200 + (x - 160) * 2.5\<rfloor>)"
  using assms by (simp add: calculate_aqi_def py_int_nonneg)

lemma calculate_aqi_range:
  assumes "0 \<le> x"
  shows "0 \<le> calculate_aqi x \<and> calculate_aqi x \<le> 300"
  unfolding calculate_aqi_floor [OF assms] using assms
  by (auto simp: floor_le_iff le_floor_iff)

text \<open>
  Below 160 the index is the floor of a real function that does not decrease on
  \<open>[0, 120)\<close> nor on \<open>[120, 160)\<close>; from 160 on it is the capped floor of an
  increasing line.
\<close>

lemma calculate_aqi_mono_band:
  assumes "0 \<le> x" "x \<le> y" "y < 120 \<or> (120 \<le> x \<and> y < 160) \<or> 160 \<le> x"
  shows "calculate_aqi x \<le> calculate_aqi y"
proof -
  define f :: "real \<Rightarrow> real" where
    "f = (\<lambda>t. if t < 40 then t * 1.25
              else if t < 80 then 50 + (t - 40) * 1.25
              else if t < 120 then 100 + (t - 80) * 1.5
              else 150 + (t - 120) * 2)"
  have below: "calculate_aqi t = \<lfloor>f t\<rfloor>" if "0 \<le> t" "t < 160" for t
    using that by (simp add: calculate_aqi_def py_int_nonneg f_def)
  show ?thesis
  proof (cases "160 \<le> x")
    case True
    then have "\<lfloor>200 + (x - 160) * 2.5\<rfloor> \<le> \<lfloor>200 + (y - 160) * 2.5\<rfloor>"
      using assms(2) by (intro floor_mono) simp
    then have "min 300 (py_int (200 + (x - 160) * 2.5))
                 \<le> min 300 (py_int (200 + (y - 160) * 2.5))"
      using True assms(2) by (simp add: py_int_nonneg)
    then show ?thesis
      using True assms(2) by (simp add: calculate_aqi_def)
  next
    case False
    then have band: "y < 120 \<or> (120 \<le> x \<and> y < 160)"
      using assms(3) by blast
    then have "f x \<le> f y"
      using assms(1,2) unfolding f_def by (auto simp: field_simps)
    then have "\<lfloor>f x\<rfloor> \<le> \<lfloor>f y\<rfloor>"
      by (rule floor_mono)
    moreover have "x < 160" "y < 160" "0 \<le> y"
      using assms(1,2) band by auto
    ultimately show ?thesis
      using below [of x] below [of y] assms(1) by simp
  qed
qed

text \<open>
  C1, as stated, fails: the index is not non-decreasing. The band \<open>[80, 120)\<close> climbs to
  159 while the band \<open>[120, 160)\<close> restarts at 150, so the index drops from 158 at
  concentration 119 to 150 at concentration 120.
\<close>

theorem calculate_aqi_not_monotone:
  "(0::real) \<le> 119 \<and> (119::real) \<le> 120
   \<and> calculate_aqi 119 = 158 \<and> calculate_aqi 120 = 150
   \<and> \<not> calculate_aqi 119 \<le> calculate_aqi 120"
  by (simp add: calculate_aqi_def py_int_def)

text \<open>
  C1, amended: for every non-negative concentration the index lies in \<open>[0, 300]\<close>, the
  index of 200 is 300, the value is the one of the breakpoint table (the integer part of
  each line), and the index is non-decreasing between two concentrations that both lie
  below 120, or both in \<open>[120, 160)\<close>, or both from 160 on.
\<close>

theorem calculate_aqi_bounded_table:
  assumes "0 \<le> x"
  shows "0 \<le> calculate_aqi x \<and> calculate_aqi x \<le> 300
    \<and> calculate_aqi 200 = 300
    \<and> calculate_aqi x =
        (if x < 40 then \<lfloor>x * 1.25\<rfloor>
         else if x < 80 then \<lfloor>50 + (x - 40) * 1.25\<rfloor>
         else if x < 120 then \<lfloor>100 + (x - 80) * 1.5\<rfloor>
         else if x < 160 then \<lfloor>150 + (x - 120) * 2\<rfloor>
         else min 300 \<lfloor>200 + (x - 160) * 2.5\<rfloor>)
    \<and> (x \<le> y \<and> (y < 120 \<or> (120 \<le> x \<and> y < 160) \<or> 160 \<le> x)
          \<longrightarrow> calculate_aqi x \<le> calculate_aqi y)"
proof -
  have "calculate_aqi 200 = 300"
    by (simp add: calculate_aqi_def py_int_def)
  then show ?thesis
    using calculate_aqi_range [OF assms] calculate_aqi_floor [OF assms]
      calculate_aqi_mono_band [OF assms, of y]
    by blast
qed

theorem calculate_aqi_bounded_table_witness:
  "(0::real) \<le> 100 \<and> (100::real) \<le> 110 \<and> (110::real) < 120
   \<and> calculate_aqi 100 \<le> calculate_aqi 110 \<and> calculate_aqi 100 = 130
   \<and> 0 \<le> calculate_aqi 100 \<and> calculate_aqi 100 \<le> 300"
  using calculate_aqi_bounded_table [of 100 110] by simp

section \<open>The simulator\<close>

text \<open>
  C6: for every coordinate, weather snapshot, clock reading and random source, the
  concentration returned by the simulator is at least 5.
\<close>

theorem simulate_tempo_advanced_at_least_5:
  "5 \<le> fst (simulate_tempo_advanced lat lon wd now g)"
  by (simp add: simulate_tempo_advanced_def Let_def split_beta)

section \<open>Risk level\<close>

text \<open>
  C7: in the areas urban_center_extreme and industrial_heavy the base risk Bajo becomes
  Moderado, Moderado becomes Alto, Alto becomes Muy Alto and Muy Alto stays; in the areas
  urban_center_high and industrial only Bajo becomes Moderado and Moderado becomes Alto.
  Concentration 60 has base risk Moderado, and in urban_center_extreme the risk level
  Alto.
\<close>

theorem calculate_risk_level_escalation:
  "calculate_risk_level n urban_center_extreme =
     (case base_risk n of
        Bajo \<Rightarrow> Moderado | Moderado \<Rightarrow> Alto | Alto \<Rightarrow> Muy_Alto | Muy_Alto \<Rightarrow> Muy_Alto)
   \<and> calculate_risk_level n industrial_heavy =
     (case base_risk n of
        Bajo \<Rightarrow> Moderado | Moderado \<Rightarrow> Alto | Alto \<Rightarrow> Muy_Alto | Muy_Alto \<Rightarrow> Muy_Alto)
   \<and> calculate_risk_level n urban_center_high =
     (case base_risk n of
        Bajo \<Rightarrow> Moderado | Moderado \<Rightarrow> Alto | Alto \<Rightarrow> Alto | Muy_Alto \<Rightarrow> Muy_Alto)
   \<and> calculate_risk_level n industrial =
     (case base_risk n of
        Bajo \<Rightarrow> Moderado | Moderado \<Rightarrow> Alto | Alto \<Rightarrow> Alto | Muy_Alto \<Rightarrow> Muy_Alto)
   \<and> base_risk 60 = Moderado
   \<and> calculate_risk_level 60 urban_center_extreme = Alto"
  by (simp add: calculate_risk_level_def base_risk_def)

section \<open>Quality label\<close>

text \<open>
  C9: the label is decided by the thresholds 40, 80, 120 and 160 (each concentration has
  the one label of its interval), and a larger concentration never has a less severe
  label.
\<close>

theorem calculate_quality_total_monotone:
  "(x \<le> y \<longrightarrow> quality_rank (calculate_quality x) \<le> quality_rank (calculate_quality y))
   \<and> (calculate_quality x = Buena \<longleftrightarrow> x < 40)
   \<and> (calculate_quality x = Moderada \<longleftrightarrow> 40 \<le> x \<and> x < 80)
   \<and> (calculate_quality x = Mala \<longleftrightarrow> 80 \<le> x \<and> x < 120)
   \<and> (calculate_quality x = Muy_Mala \<longleftrightarrow> 120 \<le> x \<and> x < 160)
   \<and> (calculate_quality x = Peligrosa \<longleftrightarrow> 160 \<le> x)"
  by (simp add: calculate_quality_def quality_rank_def)

theorem calculate_quality_total_monotone_witness:
  "(39::real) \<le> 161
   \<and> quality_rank (calculate_quality 39) \<le> quality_rank (calculate_quality 161)"
proof -
  have h: "(39::real) \<le> 161" by simp
  with calculate_quality_total_monotone [of 39 161] show ?thesis by blast
qed

section \<open>Vulnerable groups\<close>

text \<open>
  C10: for every area type the groups returned by the analyzer contain children, elderly,
  asthmatics and schools; hence for every area the school list and the elderly list of
  the recommendations follow their tiers (above 70 and above 50 for schools, above 60
  and above 50 for the elderly), whatever the area.
\<close>

theorem vulnerable_groups_always_schools_elderly:
  "children \<in> set (identify_vulnerable_groups a)
   \<and> elderly \<in> set (identify_vulnerable_groups a)
   \<and> asthmatics \<in> set (identify_vulnerable_groups a)
   \<and> schools \<in> set (identify_vulnerable_groups a)
   \<and> for_schools (generate_recommendations n r (identify_vulnerable_groups a)) =
       (if 70 < n then
          [Suspender_educacion_fisica_al_aire_libre,
           Mantener_estudiantes_en_interiores_durante_recreo,
           Activar_sistema_de_purificacion_de_aire_en_aulas]
        else if 50 < n then
          [Reducir_tiempo_de_actividades_al_aire_libre,
           Monitorear_estudiantes_con_asma_o_condiciones_respiratorias]
        else [])
   \<and> for_elderly (generate_recommendations n r (identify_vulnerable_groups a)) =
       (if 60 < n then
          [Evitar_salidas_no_esenciales,
           Realizar_ejercicios_en_interiores,
           Monitorear_sintomas_respiratorios]
        else if 50 < n then
          [Limitar_tiempo_al_aire_libre,
           Tener_medicamentos_respiratorios_a_mano]
        else [])"
  by (cases a) (simp_all add: identify_vulnerable_groups_def generate_recommendations_def)

section \<open>The forecast\<close>

lemma snd_get_base_no2_for_area:
  "snd (get_base_no2_for_area lat lon a g) = (\<lambda>n. g (Suc n))"
  by (simp add: get_base_no2_for_area_def normal_def)

lemma length_forecast_loop:
  "length (fst (forecast_loop c b xs g)) = length xs"
  by (induction xs arbitrary: g) (simp_all add: Let_def split_beta)

text \<open>The point made for the \<open>i\<close>-th index uses the \<open>i\<close>-th draw of the source.\<close>

lemma forecast_loop_nth:
  "i < length xs \<Longrightarrow>
   fst (forecast_loop c b xs g) ! i =
     \<lparr> fp_hour = (c + int (xs ! i)) mod 24,
       fp_no2 = py_round2 (max 10 (hourly_no2 b ((c + int (xs ! i)) mod 24) (5 * g i))),
       fp_quality = calculate_quality (hourly_no2 b ((c + int (xs ! i)) mod 24) (5 * g i)) \<rparr>"
proof (induction xs arbitrary: g i)
  case Nil
  then show ?case by simp
next
  case (Cons x xs)
  show ?case
  proof (cases i)
    case 0
    then show ?thesis by (simp add: Let_def split_beta normal_def)
  next
    case (Suc j)
    with Cons.prems have "j < length xs" by simp
    from Cons.IH [OF this, of "\<lambda>n. g (Suc n)"] Suc show ?thesis
      by (simp add: Let_def split_beta normal_def)
  qed
qed

lemma generate_forecast_nth:
  assumes "i < 24"
  shows "fst (generate_forecast lat lon now g) ! i =
     (let fh = (datetime_hour now + int i) mod 24;
          h = hourly_no2 (fst (get_base_no2_for_area lat lon (classify_area lat lon) g)) fh
                (5 * g (Suc i))
      in \<lparr> fp_hour = fh, fp_no2 = py_round2 (max 10 h), fp_quality = calculate_quality h \<rparr>)"
  using assms forecast_loop_nth [of i "[0..<24]"]
  by (simp add: generate_forecast_def Let_def split_beta snd_get_base_no2_for_area)

lemma length_generate_forecast: "length (fst (generate_forecast lat lon now g)) = 24"
  by (simp add: generate_forecast_def Let_def split_beta length_forecast_loop)

text \<open>
  C3, as stated, fails: in the hours 17 to 20 the forecast multiplies the baseline by 1.9,
  not by the 1.8 of the simulator's \<open>traffic_pattern\<close>. At the equator point (0, 0)
  (residential, baseline 30 when the draws are 0) and clock hour 17 the first forecast
  point is 57, where the table of the claim gives 54.
\<close>

theorem forecast_evening_peak_differs:
  "datetime_hour 61200000000 = 17
   \<and> fst (get_base_no2_for_area 0 0 (classify_area 0 0) (\<lambda>n. 0)) = 30
   \<and> py_round2 (max 10 (30 * traffic_pattern 17 + 5 * 0)) = 54
   \<and> fp_no2 (fst (generate_forecast 0 0 61200000000 (\<lambda>n. 0)) ! 0) = 57
   \<and> hourly_no2 30 17 (5 * 0) \<noteq> 30 * traffic_pattern 17 + 5 * 0"
  using generate_forecast_nth [of 0 0 0 61200000000 "\<lambda>n. 0"]
  by (simp add: Let_def classify_area_def is_major_urban_def get_base_no2_for_area_def
      normal_def datetime_hour_def py_round2_def py_round_def hourly_no2_def
      traffic_peak_def traffic_pattern_def)

text \<open>
  C3, amended: the forecast has 24 points, and for every index \<open>i\<close> below 24 the
  concentration before flooring is the sampled area baseline times the forecast's own
  multiplier of the hour \<open>(current hour + i) mod 24\<close>, plus the \<open>i\<close>-th noise draw scaled by 5;
  the multiplier is 1.8 for hours 7 to 9, 1.9 for hours 17 to 20, 1.3 for hours 12 to 14,
  0.6 for hours 23 to 5 and 1.0 otherwise. The point carries that hour, the value floored
  at 10 and rounded to two places, and the quality label of the value before flooring.
\<close>

theorem generate_forecast_point:
  assumes "i < 24"
  shows
   "(let base_no2 = fst (get_base_no2_for_area lat lon (classify_area lat lon) g);
         future_hour = (datetime_hour now + int i) mod 24;
         noise = 5 * g (Suc i);
         h = base_no2 *
               (if 7 \<le> future_hour \<and> future_hour \<le> 9 then 1.8
                else if 17 \<le> future_hour \<and> future_hour \<le> 20 then 1.9
                else if 12 \<le> future_hour \<and> future_hour \<le> 14 then 1.3
                else if 23 \<le> future_hour \<or> future_hour \<le> 5 then 0.6
                else 1.0) + noise;
         p = fst (generate_forecast lat lon now g) ! i
     in length (fst (generate_forecast lat lon now g)) = 24
        \<and> hourly_no2 base_no2 future_hour noise = h
        \<and> fp_hour p = future_hour
        \<and> fp_no2 p = py_round2 (max 10 h)
        \<and> fp_quality p = calculate_quality h)"
  using generate_forecast_nth [OF assms, of lat lon now g]
  by (simp add: Let_def length_generate_forecast hourly_no2_def traffic_peak_def)

theorem generate_forecast_point_witness:
  "(0::nat) < 24
   \<and> length (fst (generate_forecast 0 0 61200000000 (\<lambda>n. 0))) = 24
   \<and> fp_hour (fst (generate_forecast 0 0 61200000000 (\<lambda>n. 0)) ! 0) = 17
   \<and> fp_no2 (fst (generate_forecast 0 0 61200000000 (\<lambda>n. 0)) ! 0) = 57"
  using generate_forecast_point [of 0 0 0 "\<lambda>n. 0" 61200000000]
  by (simp add: Let_def classify_area_def is_major_urban_def get_base_no2_for_area_def
      normal_def datetime_hour_def py_round2_def py_round_def)

section \<open>The fallback result and the live result\<close>

lemma fallback_vulnerability:
  "d_vulnerability_analysis (fst (get_fallback_dashboard lat lon now g)) =
     (let a = classify_area lat lon; c = fst (get_base_no2_for_area lat lon a g)
      in \<lparr> area_type = a,
           vulnerable_groups = identify_vulnerable_groups a,
           risk_level = calculate_risk_level c a,
           risk_factors = get_risk_factors a c,
           protection_priority = (if 80 < c then Alta else Media) \<rparr>)"
  by (simp add: get_fallback_dashboard_def Let_def split_beta)

lemma fallback_recommendations_fixed:
  "d_recommendations (fst (get_fallback_dashboard lat lon now g)) = fallback_recommendations"
  by (simp add: get_fallback_dashboard_def Let_def split_beta)

lemma fallback_weather:
  "d_weather (fst (get_fallback_dashboard lat lon now g)) =
     \<lparr> temperature = Some 22.0, wind_speed = Some 5.0, humidity = Some 60.0,
       condition = Templado \<rparr>"
  by (simp add: get_fallback_dashboard_def Let_def split_beta)

lemma fallback_air_quality:
  "d_air_quality (fst (get_fallback_dashboard lat lon now g)) =
     (let c = fst (get_base_no2_for_area lat lon (classify_area lat lon) g)
      in \<lparr> no2_tropospheric = py_round2 c, pm25 = 15.5,
           quality_index = calculate_quality c, aqi_value = calculate_aqi c,
           timestamp = now \<rparr>)"
  by (simp add: get_fallback_dashboard_def Let_def split_beta)

lemma fallback_visualization:
  "d_visualization_data (fst (get_fallback_dashboard lat lon now g)) =
     (let g1 = (\<lambda>n. g (Suc n));
          g2 = snd (generate_historical_trend lat lon now g1)
      in \<lparr> historical_trend = fst (generate_historical_trend lat lon now g1),
           forecast = fst (generate_forecast lat lon now g2),
           risk_map = generate_risk_map_data lat lon \<rparr>)"
  by (simp add: get_fallback_dashboard_def Let_def split_beta snd_get_base_no2_for_area)

lemma fallback_metadata:
  "d_metadata (fst (get_fallback_dashboard lat lon now g)) =
     \<lparr> data_source = Fallback_data, location = (lat, lon), last_updated = now,
       resolution = ''2km x 5.5km'' \<rparr>"
  by (simp add: get_fallback_dashboard_def Let_def split_beta)

lemma live_vulnerability:
  assumes "live_dashboard lat lon e = Inr d"
  shows "d_vulnerability_analysis d =
     analyze_vulnerability lat lon
       (fst (simulate_tempo_advanced lat lon (weather_reply e) (utcnow e) (rng e)))"
  using assms
  by (auto simp: live_dashboard_def Let_def split_beta split: option.splits)

lemma live_metadata:
  assumes "live_dashboard lat lon e = Inr d"
  shows "data_source (d_metadata d) = NASA_TEMPO_Simulation_OpenAQ_Open_Meteo"
  using assms
  by (auto simp: live_dashboard_def Let_def split_beta split: option.splits)

lemma live_dashboard_quiet_env:
  "live_dashboard lat lon quiet_env = Inr (projr (live_dashboard lat lon quiet_env))"
  by (simp add: live_dashboard_def quiet_env_def Let_def split_beta)

lemma live_dashboard_quiet_env_stamp:
  "last_updated (d_metadata (projr (live_dashboard lat lon quiet_env))) = 0"
  by (simp add: live_dashboard_def quiet_env_def Let_def split_beta)

text \<open>The tiered rules never produce the fixed lists of the fallback.\<close>

lemma generate_recommendations_not_fallback:
  "generate_recommendations c r gs \<noteq> fallback_recommendations"
proof
  assume "generate_recommendations c r gs = fallback_recommendations"
  then have "general (generate_recommendations c r gs) = general fallback_recommendations"
    by simp
  then show False
    by (simp add: generate_recommendations_def fallback_recommendations_def split: if_splits)
qed

text \<open>
  C4, as stated, fails on the fallback path, where the priority is decided by the
  concentration alone. Around (19.43, -99.13) the area is urban_center_high; with the draw
  -1 the fallback concentration is 65, the risk level Alto, and the priority Media.
\<close>

theorem fallback_priority_ignores_risk_level:
  "risk_level (d_vulnerability_analysis
       (fst (get_fallback_dashboard 19.43 (-99.13) 0 (\<lambda>n. -1)))) = Alto
   \<and> protection_priority (d_vulnerability_analysis
       (fst (get_fallback_dashboard 19.43 (-99.13) 0 (\<lambda>n. -1)))) = Media"
  by (simp add: fallback_vulnerability Let_def classify_area_def get_base_no2_for_area_def
      normal_def calculate_risk_level_def base_risk_def)

text \<open>
  C4, amended: in every assessment of the live path the priority is Alta if the
  assessment's risk level is Alto or Muy Alto, and Media otherwise; in every assessment of
  the fallback path the priority is Alta if the fallback concentration exceeds 80, and
  Media otherwise.
\<close>

theorem protection_priority_live_and_fallback:
  assumes "live_dashboard lat lon e = Inr d"
  shows
   "protection_priority (d_vulnerability_analysis d) =
      (if risk_level (d_vulnerability_analysis d) = Alto
          \<or> risk_level (d_vulnerability_analysis d) = Muy_Alto then Alta else Media)
    \<and> protection_priority (d_vulnerability_analysis (fst (get_fallback_dashboard lat lon now g))) =
      (if 80 < fst (get_base_no2_for_area lat lon (classify_area lat lon) g)
       then Alta else Media)"
  using live_vulnerability [OF assms]
  by (simp add: fallback_vulnerability analyze_vulnerability_def Let_def)

theorem protection_priority_live_and_fallback_witness:
  "live_dashboard 0 0 quiet_env = Inr (projr (live_dashboard 0 0 quiet_env))
   \<and> risk_level (d_vulnerability_analysis (projr (live_dashboard 0 0 quiet_env))) = Bajo
   \<and> protection_priority (d_vulnerability_analysis (projr (live_dashboard 0 0 quiet_env))) = Media
   \<and> protection_priority (d_vulnerability_analysis
        (fst (get_fallback_dashboard 0 0 0 (\<lambda>n. 7)))) = Alta"
proof -
  have h: "live_dashboard 0 0 quiet_env = Inr (projr (live_dashboard 0 0 quiet_env))"
    by (rule live_dashboard_quiet_env)
  have "fst (simulate_tempo_advanced 0 0 (weather_reply quiet_env) (utcnow quiet_env)
          (rng quiet_env)) = 18"
    by (simp add: simulate_tempo_advanced_def quiet_env_def Let_def split_beta
        classify_area_def is_major_urban_def get_base_no2_for_area_def normal_def
        urban_factor_map_def traffic_pattern_def datetime_hour_def wind_factor_def
        temp_factor_def)
  then have low: "risk_level (d_vulnerability_analysis (projr (live_dashboard 0 0 quiet_env))) = Bajo"
    using live_vulnerability [OF h]
    by (simp add: analyze_vulnerability_def Let_def classify_area_def is_major_urban_def
        calculate_risk_level_def base_risk_def)
  have "fst (get_base_no2_for_area 0 0 (classify_area 0 0) (\<lambda>n. 7)) = 86"
    by (simp add: classify_area_def is_major_urban_def get_base_no2_for_area_def normal_def)
  with protection_priority_live_and_fallback [OF h, of 0 "\<lambda>n. 7"] h low show ?thesis
    by simp
qed

text \<open>
  C5, as stated, fails: the recommendations of the fallback are not made by the tiered
  rules. At (0, 0) with the draws 0 the fallback concentration is 30; the tiered rules
  give the single general text "Calidad del aire aceptable, tomar precauciones normales",
  the fallback gives "Monitorear calidad del aire" and "Evitar zonas de alto trafico".
\<close>

theorem fallback_recommendations_not_tiered:
  "no2_tropospheric (d_air_quality (fst (get_fallback_dashboard 0 0 0 (\<lambda>n. 0)))) = 30
   \<and> general (d_recommendations (fst (get_fallback_dashboard 0 0 0 (\<lambda>n. 0)))) =
       [Monitorear_calidad_del_aire, Evitar_zonas_de_alto_trafico]
   \<and> general (generate_recommendations 30 (calculate_risk_level 30 residential)
         (identify_vulnerable_groups residential)) =
       [Calidad_del_aire_aceptable_tomar_precauciones_normales]
   \<and> d_recommendations (fst (get_fallback_dashboard 0 0 0 (\<lambda>n. 0))) \<noteq>
       generate_recommendations 30 (calculate_risk_level 30 residential)
         (identify_vulnerable_groups residential)"
proof -
  have "py_round2 30 = 30"
    by (simp add: py_round2_def py_round_def)
  then show ?thesis
    using generate_recommendations_not_fallback
      [of 30 "calculate_risk_level 30 residential" "identify_vulnerable_groups residential"]
    by (simp add: fallback_air_quality fallback_recommendations_fixed Let_def
        classify_area_def is_major_urban_def get_base_no2_for_area_def normal_def
        fallback_recommendations_def generate_recommendations_def)
qed

text \<open>
  C5, amended: on the fallback path the weather is the fixed default (22.0, wind 5.0,
  humidity 60.0, Templado); the reported concentration and the vulnerability assessment
  (area, groups, risk level, risk factors, priority) are computed from the simulated
  concentration \<open>c\<close> of the classified area; the recommendations are five fixed lists that
  do not depend on the concentration and that the tiered rules never produce; the trend
  and the forecast come from the same generators as on the live path, run on the draws
  after the one that made \<open>c\<close>, so each samples its own baseline; the source label is
  "Fallback data".
\<close>

theorem fallback_dashboard_contents:
  "(let d = fst (get_fallback_dashboard lat lon now g);
        a = classify_area lat lon;
        c = fst (get_base_no2_for_area lat lon a g);
        g1 = (\<lambda>n. g (Suc n));
        g2 = snd (generate_historical_trend lat lon now g1)
    in d_weather d =
         \<lparr> temperature = Some 22.0, wind_speed = Some 5.0, humidity = Some 60.0,
           condition = Templado \<rparr>
       \<and> no2_tropospheric (d_air_quality d) = py_round2 c
       \<and> d_vulnerability_analysis d =
         \<lparr> area_type = a,
           vulnerable_groups = identify_vulnerable_groups a,
           risk_level = calculate_risk_level c a,
           risk_factors = get_risk_factors a c,
           protection_priority = (if 80 < c then Alta else Media) \<rparr>
       \<and> d_recommendations d =
         \<lparr> general = [Monitorear_calidad_del_aire, Evitar_zonas_de_alto_trafico],
           for_schools = [Limitar_recreo_al_aire_libre_si_la_calidad_empeora],
           for_elderly = [Tomar_precauciones_normales],
           for_health_centers = [Estar_preparado_para_consultas_respiratorias],
           immediate_actions = [] \<rparr>
       \<and> d_recommendations d \<noteq> generate_recommendations c' r gs
       \<and> historical_trend (d_visualization_data d) =
           fst (generate_historical_trend lat lon now g1)
       \<and> forecast (d_visualization_data d) = fst (generate_forecast lat lon now g2)
       \<and> data_source (d_metadata d) = Fallback_data)"
  using generate_recommendations_not_fallback [of c' r gs]
  by (simp add: Let_def fallback_weather fallback_air_quality fallback_vulnerability
      fallback_recommendations_fixed fallback_visualization fallback_metadata)
    (auto simp: fallback_recommendations_def)

section \<open>The cache\<close>

lemma get_dashboard_hit:
  "cache_lookup st (cache_key lat lon) (utcnow e) = Some d \<Longrightarrow>
   get_air_quality_dashboard st lat lon e = (d, st)"
  by (simp add: get_air_quality_dashboard_def)

lemma get_dashboard_live:
  "cache_lookup st (cache_key lat lon) (utcnow e) = None \<Longrightarrow>
   live_dashboard lat lon e = Inr d \<Longrightarrow>
   get_air_quality_dashboard st lat lon e =
     (d, st\<lparr> cache := (cache st)(cache_key lat lon \<mapsto> (d, utcnow e)) \<rparr>)"
  by (simp add: get_air_quality_dashboard_def)

lemma get_dashboard_fallback:
  "cache_lookup st (cache_key lat lon) (utcnow e) = None \<Longrightarrow>
   live_dashboard lat lon e = Inl x \<Longrightarrow>
   get_air_quality_dashboard st lat lon e =
     (fst (get_fallback_dashboard lat lon (utcnow e) (rng e)), st)"
  by (simp add: get_air_quality_dashboard_def)

text \<open>The three ways through the orchestrator.\<close>

lemma get_dashboard_cases:
  obtains (hit) d where "cache_lookup st (cache_key lat lon) (utcnow e) = Some d"
  | (live) d where "cache_lookup st (cache_key lat lon) (utcnow e) = None"
      "live_dashboard lat lon e = Inr d"
  | (fallback) x where "cache_lookup st (cache_key lat lon) (utcnow e) = None"
      "live_dashboard lat lon e = Inl x"
  by (cases "cache_lookup st (cache_key lat lon) (utcnow e)"; cases "live_dashboard lat lon e")
    auto

lemma no_fallback_cached_preserved:
  assumes "no_fallback_cached st"
  shows "no_fallback_cached (snd (get_air_quality_dashboard st lat lon e))"
proof (cases rule: get_dashboard_cases [of st lat lon e])
  case (hit d)
  then show ?thesis using assms by (simp add: get_dashboard_hit)
next
  case (live d)
  then show ?thesis
    using assms live_metadata [OF live(2)]
    by (auto simp: get_dashboard_live no_fallback_cached_def)
next
  case (fallback x)
  then show ?thesis using assms by (simp add: get_dashboard_fallback)
qed

lemma fallback_label_cache_unchanged:
  assumes "data_source (d_metadata (fst (get_air_quality_dashboard st lat lon e))) = Fallback_data"
  shows "snd (get_air_quality_dashboard st lat lon e) = st"
proof (cases rule: get_dashboard_cases [of st lat lon e])
  case (hit d)
  then show ?thesis by (simp add: get_dashboard_hit)
next
  case (live d)
  then show ?thesis
    using assms live_metadata [OF live(2)] by (simp add: get_dashboard_live)
next
  case (fallback x)
  then show ?thesis by (simp add: get_dashboard_fallback)
qed

lemma cache_lookup_init: "cache_lookup init k now = None"
  by (simp add: cache_lookup_def init_def)

text \<open>The first call of a fresh processor in the quiet environment stores its result.\<close>

lemma first_call_quiet_env:
  "get_air_quality_dashboard init lat lon quiet_env =
     (projr (live_dashboard lat lon quiet_env),
      \<lparr> cache = [cache_key lat lon \<mapsto> (projr (live_dashboard lat lon quiet_env), 0)] \<rparr>)"
proof -
  have l: "live_dashboard lat lon quiet_env = Inr (projr (live_dashboard lat lon quiet_env))"
    by (rule live_dashboard_quiet_env)
  have "utcnow quiet_env = 0" by (simp add: quiet_env_def)
  then show ?thesis
    using get_dashboard_live [OF cache_lookup_init l]
    by (simp add: init_def)
qed

text \<open>
  C2: the code serves an entry whose age is 300 seconds or more. The lookup compares the
  \<open>.seconds\<close> component of the age, which starts again at 0 after each full day. A fresh
  processor stores the result for (19.43, -99.13) at clock 0; one day and ten seconds
  later (86410 seconds) the component is 10, and the call returns the stored result and
  leaves the cache as it is, with another random source at hand.
\<close>

theorem stale_entry_served_after_one_day:
  "cache (snd (get_air_quality_dashboard init 19.43 (-99.13) quiet_env))
      (cache_key 19.43 (-99.13)) =
      Some (fst (get_air_quality_dashboard init 19.43 (-99.13) quiet_env), 0)
   \<and> last_updated (d_metadata (fst (get_air_quality_dashboard init 19.43 (-99.13) quiet_env))) = 0
   \<and> (300::int) * 1000000 \<le> 86410000000 - 0
   \<and> timedelta_seconds (86410000000 - 0) = 10
   \<and> get_air_quality_dashboard (snd (get_air_quality_dashboard init 19.43 (-99.13) quiet_env))
        19.43 (-99.13) (quiet_env\<lparr> utcnow := 86410000000, rng := (\<lambda>n. 1) \<rparr>) =
      (fst (get_air_quality_dashboard init 19.43 (-99.13) quiet_env),
       snd (get_air_quality_dashboard init 19.43 (-99.13) quiet_env))"
proof -
  let ?lat = "19.43 :: real" and ?lon = "- 99.13 :: real"
  let ?st = "snd (get_air_quality_dashboard init ?lat ?lon quiet_env)"
  let ?d = "fst (get_air_quality_dashboard init ?lat ?lon quiet_env)"
  let ?e = "quiet_env\<lparr> utcnow := 86410000000, rng := (\<lambda>n. 1) \<rparr>"
  have stored: "cache ?st (cache_key ?lat ?lon) = Some (?d, 0)"
    by (simp add: first_call_quiet_env)
  have stamp: "last_updated (d_metadata ?d) = 0"
    by (simp add: first_call_quiet_env live_dashboard_quiet_env_stamp)
  have secs: "timedelta_seconds (86410000000 - 0) = 10"
    by (simp add: timedelta_seconds_def)
  have "cache_lookup ?st (cache_key ?lat ?lon) (utcnow ?e) = Some ?d"
    using stored secs by (simp add: cache_lookup_def cache_ttl_def)
  then have "get_air_quality_dashboard ?st ?lat ?lon ?e = (?d, ?st)"
    by (rule get_dashboard_hit)
  with stored stamp secs show ?thesis
    by (intro conjI) simp_all
qed

text \<open>
  C8: when the lookup misses and the \<open>try\<close> block raises, the orchestrator returns the
  fallback result, whose source label is "Fallback data", and the cache is the one before
  the call. Any call that returns a result with that label leaves the processor unchanged,
  and a cache that holds no result with that label holds none after any call.
\<close>

theorem fallback_never_cached:
  "(cache_lookup st (cache_key lat lon) (utcnow e) = None \<and> live_dashboard lat lon e = Inl x
      \<longrightarrow> get_air_quality_dashboard st lat lon e =
            (fst (get_fallback_dashboard lat lon (utcnow e) (rng e)), st)
          \<and> data_source (d_metadata (fst (get_air_quality_dashboard st lat lon e))) = Fallback_data
          \<and> cache (snd (get_air_quality_dashboard st lat lon e)) = cache st)
   \<and> (data_source (d_metadata (fst (get_air_quality_dashboard st lat lon e))) = Fallback_data
      \<longrightarrow> snd (get_air_quality_dashboard st lat lon e) = st)
   \<and> (no_fallback_cached st
      \<longrightarrow> no_fallback_cached (snd (get_air_quality_dashboard st lat lon e)))"
  using no_fallback_cached_preserved [of st lat lon e]
    fallback_label_cache_unchanged [of st lat lon e]
  by (auto simp: get_dashboard_fallback fallback_metadata)

theorem fallback_never_cached_witness:
  "cache_lookup (snd (get_air_quality_dashboard init 0 0 quiet_env)) (cache_key 0 0)
      (utcnow (quiet_env\<lparr> utcnow := 400000000, try_raises := Some PyException \<rparr>)) = None
   \<and> live_dashboard 0 0 (quiet_env\<lparr> utcnow := 400000000, try_raises := Some PyException \<rparr>)
       = Inl PyException
   \<and> no_fallback_cached (snd (get_air_quality_dashboard init 0 0 quiet_env))
   \<and> cache (snd (get_air_quality_dashboard init 0 0 quiet_env)) (cache_key 0 0) =
       Some (fst (get_air_quality_dashboard init 0 0 quiet_env), 0)
   \<and> data_source (d_metadata (fst (get_air_quality_dashboard
        (snd (get_air_quality_dashboard init 0 0 quiet_env)) 0 0
        (quiet_env\<lparr> utcnow := 400000000, try_raises := Some PyException \<rparr>)))) = Fallback_data
   \<and> snd (get_air_quality_dashboard
        (snd (get_air_quality_dashboard init 0 0 quiet_env)) 0 0
        (quiet_env\<lparr> utcnow := 400000000, try_raises := Some PyException \<rparr>))
       = snd (get_air_quality_dashboard init 0 0 quiet_env)
   \<and> no_fallback_cached (snd (get_air_quality_dashboard
        (snd (get_air_quality_dashboard init 0 0 quiet_env)) 0 0
        (quiet_env\<lparr> utcnow := 400000000, try_raises := Some PyException \<rparr>)))"
proof -
  let ?st = "snd (get_air_quality_dashboard init 0 0 quiet_env)"
  let ?e = "quiet_env\<lparr> utcnow := 400000000, try_raises := Some PyException \<rparr>"
  have miss: "cache_lookup ?st (cache_key 0 0) (utcnow ?e) = None"
    by (simp add: first_call_quiet_env cache_lookup_def timedelta_seconds_def cache_ttl_def)
  have raises: "live_dashboard 0 0 ?e = Inl PyException"
    by (simp add: live_dashboard_def)
  have l: "live_dashboard 0 0 quiet_env = Inr (projr (live_dashboard 0 0 quiet_env))"
    by (rule live_dashboard_quiet_env)
  have clean: "no_fallback_cached ?st"
    using live_metadata [OF l]
    by (auto simp: first_call_quiet_env no_fallback_cached_def split: if_splits)
  have stored: "cache ?st (cache_key 0 0) =
      Some (fst (get_air_quality_dashboard init 0 0 quiet_env), 0)"
    by (simp add: first_call_quiet_env)
  note T = fallback_never_cached [of ?st 0 0 ?e PyException]
  have label: "data_source (d_metadata (fst (get_air_quality_dashboard ?st 0 0 ?e))) = Fallback_data"
    using T miss raises by blast
  have same: "snd (get_air_quality_dashboard ?st 0 0 ?e) = ?st"
    using T label by blast
  have still: "no_fallback_cached (snd (get_air_quality_dashboard ?st 0 0 ?e))"
    using T clean by blast
  from miss raises clean stored label same still show ?thesis
    by (intro conjI)
qed

end
